theory Spec2Isabelle
  imports Complex_Main
begin

section \<open>Calendar dates\<close>

text \<open>
  The downloader works on \<^verbatim>\<open>datetime.date\<close> values. A date is the record of its
  three fields; the arithmetic the program uses on dates (difference in days, adding a
  number of days, the ISO calendar) goes through the proleptic Gregorian ordinal, as in the
  standard library's own implementation.
\<close>

record date =
  year :: int
  month :: int
  day :: int

definition is_leap :: "int \<Rightarrow> bool" where
  "is_leap y = (if y mod 4 = 0 then (if y mod 100 = 0 then y mod 400 = 0 else True) else False)"

definition days_before_year :: "int \<Rightarrow> int" where
  "days_before_year y = (y - 1) * 365 + (y - 1) div 4 - (y - 1) div 100 + (y - 1) div 400"

definition days_in_month :: "int \<Rightarrow> int \<Rightarrow> int" where
  "days_in_month y m =
     (if m = 2 then (if is_leap y then 29 else 28)
      else if m = 4 then 30 else if m = 6 then 30 else if m = 9 then 30 else if m = 11 then 30
      else 31)"

definition days_before_month_table :: "int \<Rightarrow> int" where
  "days_before_month_table m =
     (if m \<le> 1 then 0 else if m = 2 then 31 else if m = 3 then 59 else if m = 4 then 90
      else if m = 5 then 120 else if m = 6 then 151 else if m = 7 then 181
      else if m = 8 then 212 else if m = 9 then 243 else if m = 10 then 273
      else if m = 11 then 304 else 334)"

definition days_before_month :: "int \<Rightarrow> int \<Rightarrow> int" where
  "days_before_month y m =
     days_before_month_table m + (if 2 < m then (if is_leap y then 1 else 0) else 0)"

definition toordinal :: "date \<Rightarrow> int" where
  "toordinal d = days_before_year (year d) + days_before_month (year d) (month d) + day d"

definition fromordinal :: "int \<Rightarrow> date" where
  "fromordinal n0 =
     (let n = n0 - 1;
          n400 = n div 146097; n = n mod 146097;
          n100 = n div 36524; n = n mod 36524;
          n4 = n div 1461; n = n mod 1461;
          n1 = n div 365; n = n mod 365;
          y = n400 * 400 + 1 + n100 * 100 + n4 * 4 + n1
      in if n1 = 4 then \<lparr>year = y - 1, month = 12, day = 31\<rparr>
         else if n100 = 4 then \<lparr>year = y - 1, month = 12, day = 31\<rparr>
         else
           (let leapyear = (if n1 = 3 then (if n4 = 24 then n100 = 3 else True) else False);
                m = (n + 50) div 32;
                preceding = days_before_month_table m
                            + (if 2 < m then (if leapyear then 1 else 0) else 0)
            in if n < preceding
               then (let m' = m - 1;
                         preceding' = preceding
                           - (if m' = 2 then (if leapyear then 29 else 28)
                              else days_in_month y m')
                     in \<lparr>year = y, month = m', day = n - preceding' + 1\<rparr>)
               else \<lparr>year = y, month = m, day = n - preceding + 1\<rparr>))"

text \<open>\<^verbatim>\<open>d + timedelta(days=k)\<close> and \<^verbatim>\<open>d + timedelta(weeks=k)\<close>.\<close>

definition add_days :: "date \<Rightarrow> int \<Rightarrow> date" where
  "add_days d k = fromordinal (toordinal d + k)"

definition add_weeks :: "date \<Rightarrow> int \<Rightarrow> date" where
  "add_weeks d k = fromordinal (toordinal d + 7 * k)"

text \<open>\<^verbatim>\<open>d.isocalendar()\<close>: ISO year, ISO week number, ISO weekday.\<close>

definition isoweek1monday :: "int \<Rightarrow> int" where
  "isoweek1monday y =
     (let firstday = toordinal \<lparr>year = y, month = 1, day = 1\<rparr>;
          firstweekday = (firstday + 6) mod 7;
          week1monday = firstday - firstweekday
      in if 3 < firstweekday then week1monday + 7 else week1monday)"

definition isocalendar :: "date \<Rightarrow> int \<times> int \<times> int" where
  "isocalendar d =
     (let y = year d;
          week1monday = isoweek1monday y;
          today = toordinal d;
          week = (today - week1monday) div 7;
          wday = (today - week1monday) mod 7
      in if week < 0
         then (let y' = y - 1; w1 = isoweek1monday y'
               in (y', (today - w1) div 7 + 1, (today - w1) mod 7 + 1))
         else if 52 \<le> week
         then (if isoweek1monday (y + 1) \<le> today then (y + 1, 1, wday + 1)
               else (y, week + 1, wday + 1))
         else (y, week + 1, wday + 1))"

section \<open>The window count\<close>

text \<open>
  \<^verbatim>\<open>weeks_between_dates(d0, d1)\<close>: Python's \<^verbatim>\<open>//\<close> and \<^verbatim>\<open>%\<close> on integers are
  floor division and its remainder, which are \<open>div\<close> and \<open>mod\<close> on \<open>int\<close>.
\<close>

definition weeks_between_dates :: "date \<Rightarrow> date \<Rightarrow> int" where
  "weeks_between_dates d0 d1 =
     (let delta = toordinal d1 - toordinal d0;
          weeks = delta div 7
      in if delta mod 7 = 0 then weeks else weeks + 1)"

section \<open>Strings\<close>

text \<open>\<^verbatim>\<open>s.split(sep)\<close> for a one-character separator: always at least one part.\<close>

fun str_split :: "char \<Rightarrow> string \<Rightarrow> string list" where
  "str_split c [] = [[]]"
| "str_split c (x # xs) =
     (if x = c then [] # str_split c xs
      else (case str_split c xs of [] \<Rightarrow> [[x]] | p # ps \<Rightarrow> (x # p) # ps))"

text \<open>\<^verbatim>\<open>x.replace("\0", "")\<close>.\<close>

definition remove_nul :: "string \<Rightarrow> string" where
  "remove_nul x = filter (\<lambda>c. c \<noteq> CHR 0x00) x"

text \<open>\<^verbatim>\<open>str(n)\<close> for an integer, as the f-string of the URL formats year and week.\<close>

fun str_nat :: "nat \<Rightarrow> string" where
  "str_nat n = (if n < 10 then [char_of (48 + n)] else str_nat (n div 10) @ [char_of (48 + n mod 10)])"

declare str_nat.simps [simp del]

definition str_int :: "int \<Rightarrow> string" where
  "str_int i = (if i < 0 then CHR ''-'' # str_nat (nat (- i)) else str_nat (nat i))"

text \<open>\<^verbatim>\<open>x.upper()\<close> on ASCII tickets.\<close>

definition upper_char :: "char \<Rightarrow> char" where
  "upper_char c = (let n = (of_char c :: nat) in if 97 \<le> n \<and> n \<le> 122 then char_of (n - 32) else c)"

definition upper :: "string \<Rightarrow> string" where
  "upper s = map upper_char s"

section \<open>Data model\<close>

record datetime =
  dt_date :: date
  hour :: int
  minute :: int
  second :: int
  microsecond :: int

record Instrument =
  inst_ticket :: string
  has_ticks :: bool
  has_candles :: bool

text \<open>
  \<^verbatim>\<open>FxTick\<close>: the columns \<^verbatim>\<open>bid\<close> and \<^verbatim>\<open>ask\<close> are \<^verbatim>\<open>String(50)\<close>, so a tick
  carries the two price fields of its row as text. The autoincrement \<^verbatim>\<open>id\<close> is left to
  the store.
\<close>

record FxTick =
  dt :: datetime
  bid :: string
  ask :: string
  ticket :: string

record db =
  instruments :: "Instrument list"
  fx_tick :: "FxTick list"

text \<open>Python exceptions that the modelled code can raise and does not absorb where raised.\<close>

datatype exn =
  UnboundLocalError | StopIteration | IndexError | ZeroDivisionError
  | TypeError | AttributeError | ValueError

datatype 'a outcome = Returned 'a | Raised exn

section \<open>The outside world\<close>

text \<open>
  What the program reads from outside is a parameter of the model.
  \<^item> \<open>requests_get\<close>: the outcome of \<^verbatim>\<open>requests.get(url)\<close> followed by
    \<^verbatim>\<open>raise_for_status()\<close>: either a \<^verbatim>\<open>RequestException\<close> (no connection, timeout, a
    status that \<^verbatim>\<open>raise_for_status\<close> rejects) or a response with its content.
  \<^item> The content is what \<^verbatim>\<open>gzip.open(..., "rt")\<close> makes of it: not a gzip stream, or the
    text lines of the file. A stream that breaks after some of its lines is not modelled.
  \<^item> \<open>csv_reader\<close>: the rows that \<^verbatim>\<open>csv.reader\<close> yields from the lines, and whether it
    stops at the end of the data or by raising \<^verbatim>\<open>csv.Error\<close>.
  \<^item> \<open>strptime\<close>: \<^verbatim>\<open>datetime.datetime.strptime(s, fmt)\<close>, with \<open>None\<close> for
    \<^verbatim>\<open>ValueError\<close>.
  \<^item> \<open>today\<close>: \<^verbatim>\<open>datetime.date.today()\<close>.
\<close>

datatype payload = BadGzipFile | Text "string list"

datatype response = RequestException | Response payload

datatype reader_end = EndOfData | CsvError

record world =
  requests_get :: "string \<Rightarrow> response"
  csv_reader :: "string list \<Rightarrow> string list list \<times> reader_end"
  strptime :: "string \<Rightarrow> string \<Rightarrow> datetime option"
  today :: date

section \<open>One window: download\_and\_process\_gz\<close>

definition datetime_fmts :: "string list" where
  "datetime_fmts = [''%m/%d/%Y %H:%M:%S.%f'', ''%m-%d-%Y %H:%M:%S.%f'']"

text \<open>
  The local variables of the row loop. \<open>dt_local\<close> is the local \<^verbatim>\<open>dt\<close>: \<open>None\<close> while
  it is unbound. \<open>commits\<close> lists the batches passed to \<^verbatim>\<open>session.add_all\<close> and
  committed, in order; \<open>warnings\<close> lists the rows logged by the row handler. The store
  accepts every commit: a commit that the database refuses ends the process through
  \<^verbatim>\<open>SystemExit\<close> and is outside the model.
\<close>

record loop_state =
  rows :: "FxTick list"
  count :: int
  dt_local :: "datetime option"
  commits :: "FxTick list list"
  warnings :: "string list list"

definition init_state :: loop_state where
  "init_state = \<lparr>rows = [], count = 0, dt_local = None, commits = [], warnings = []\<rparr>"

text \<open>
  The loop over the formats: every format is tried, a \<^verbatim>\<open>ValueError\<close> is passed over,
  and a format that parses assigns \<^verbatim>\<open>dt\<close>. There is no \<^verbatim>\<open>break\<close> and no
  \<^verbatim>\<open>else\<close>.
\<close>

definition try_fmts :: "world \<Rightarrow> string \<Rightarrow> datetime option \<Rightarrow> datetime option" where
  "try_fmts w s d0 =
     foldl (\<lambda>d fmt. case strptime w s fmt of None \<Rightarrow> d | Some t \<Rightarrow> Some t) d0 datetime_fmts"

text \<open>
  The body of \<^verbatim>\<open>if row:\<close>. The arguments of \<^verbatim>\<open>FxTick(dt=dt, bid=row[1], ask=row[2], ...)\<close>
  are evaluated in order: an unbound \<^verbatim>\<open>dt\<close> raises \<^verbatim>\<open>UnboundLocalError\<close>, which the
  handler for \<^verbatim>\<open>(ValueError, IndexError)\<close> does not catch; a missing field raises
  \<^verbatim>\<open>IndexError\<close>, which it catches and logs.
\<close>

definition parse_row :: "world \<Rightarrow> string \<Rightarrow> loop_state \<Rightarrow> string list \<Rightarrow> exn + loop_state" where
  "parse_row w tk s row =
     (let s1 = s\<lparr>dt_local := try_fmts w (hd row) (dt_local s)\<rparr>
      in case dt_local s1 of
           None \<Rightarrow> Inl UnboundLocalError
         | Some t \<Rightarrow>
             if length row < 3 then Inr (s1\<lparr>warnings := warnings s1 @ [row]\<rparr>)
             else Inr (s1\<lparr>rows := rows s1 @ [\<lparr>dt = t, bid = row ! 1, ask = row ! 2, ticket = tk\<rparr>],
                           count := count s1 + 1\<rparr>))"

text \<open>One iteration of \<^verbatim>\<open>for row in reader\<close>, with the batch test after the row.\<close>

definition row_step :: "world \<Rightarrow> string \<Rightarrow> int \<Rightarrow> loop_state \<Rightarrow> string list \<Rightarrow> exn + loop_state" where
  "row_step w tk batch_size s row =
     (case (if row = [] then Inr s else parse_row w tk s row) of
        Inl e \<Rightarrow> Inl e
      | Inr s2 \<Rightarrow>
          if batch_size = 0 then Inl ZeroDivisionError
          else if count s2 mod batch_size = 0
          then Inr (s2\<lparr>commits := commits s2 @ [rows s2], rows := []\<rparr>)
          else Inr s2)"

text \<open>
  The loop. An exception leaves it at once; the state returned with it is the one before
  the failing iteration, whose \<open>commits\<close> are what the store holds then.
\<close>

fun for_rows :: "world \<Rightarrow> string \<Rightarrow> int \<Rightarrow> loop_state \<Rightarrow> string list list \<Rightarrow> exn option \<times> loop_state" where
  "for_rows w tk batch_size s [] = (None, s)"
| "for_rows w tk batch_size s (row # rest) =
     (case row_step w tk batch_size s row of
        Inl e \<Rightarrow> (Some e, s)
      | Inr s' \<Rightarrow> for_rows w tk batch_size s' rest)"

text \<open>\<^verbatim>\<open>if rows: session.add_all(rows); session.commit()\<close> after the loop.\<close>

definition final_flush :: "loop_state \<Rightarrow> FxTick list list" where
  "final_flush s = (if rows s = [] then commits s else commits s @ [rows s])"

text \<open>
  What one call of \<^verbatim>\<open>download_and_process_gz\<close> does: the pair it returns or the
  exception that leaves it, the batches it committed, and the rows it logged as unparsable.
\<close>

record window_run =
  result :: "(bool \<times> string) outcome"
  batches :: "FxTick list list"
  skipped :: "string list list"

definition window_label :: "string list \<Rightarrow> string" where
  "window_label url_parts =
     (let n = length url_parts;
          tk = url_parts ! (n - 3); yr = url_parts ! (n - 2);
          wk = hd (str_split CHR ''.'' (url_parts ! (n - 1)))
      in tk @ ''-'' @ yr @ ''-'' @ wk)"

definition download_and_process_gz :: "world \<Rightarrow> string \<Rightarrow> int \<Rightarrow> window_run" where
  "download_and_process_gz w url_data batch_size =
     (let url_parts = str_split CHR ''/'' url_data
      in if length url_parts < 3
         then \<lparr>result = Raised IndexError, batches = [], skipped = []\<rparr>
         else
           (let tk = url_parts ! (length url_parts - 3);
                this = window_label url_parts
            in case requests_get w url_data of
                 RequestException \<Rightarrow>
                   \<lparr>result = Returned (False, this), batches = [], skipped = []\<rparr>
               | Response BadGzipFile \<Rightarrow>
                   \<lparr>result = Returned (False, this), batches = [], skipped = []\<rparr>
               | Response (Text file) \<Rightarrow>
                   (case csv_reader w (map remove_nul file) of
                      ([], EndOfData) \<Rightarrow>
                        \<lparr>result = Raised StopIteration, batches = [], skipped = []\<rparr>
                    | ([], CsvError) \<Rightarrow>
                        \<lparr>result = Returned (False, this), batches = [], skipped = []\<rparr>
                    | (header # data, e) \<Rightarrow>
                        (case for_rows w tk batch_size init_state data of
                           (Some ex, s) \<Rightarrow>
                             \<lparr>result = Raised ex, batches = commits s, skipped = warnings s\<rparr>
                         | (None, s) \<Rightarrow>
                             (case e of
                                CsvError \<Rightarrow>
                                  \<lparr>result = Returned (False, this), batches = commits s,
                                   skipped = warnings s\<rparr>
                              | EndOfData \<Rightarrow>
                                  \<lparr>result = Returned (True, this), batches = final_flush s,
                                   skipped = warnings s\<rparr>)))))"

section \<open>One instrument: download\_tick\_data\<close>

definition base_url :: string where
  "base_url = ''https://tickdata.fxcorporate.com''"

definition url_suffix :: string where
  "url_suffix = ''.csv.gz''"

text \<open>The URL of the window of index \<open>i\<close>.\<close>

definition window_url :: "string \<Rightarrow> date \<Rightarrow> nat \<Rightarrow> string" where
  "window_url tk d0 i =
     (let new_date = add_weeks d0 (int i);
          yr = fst (isocalendar new_date); wk = fst (snd (isocalendar new_date))
      in base_url @ ''/'' @ tk @ ''/'' @ str_int yr @ ''/'' @ str_int wk @ url_suffix)"

text \<open>
  The sequential branch of the loop over \<^verbatim>\<open>range(weeks)\<close>. The first component is the
  pair returned from inside the loop, if any: by the \<^verbatim>\<open>return False, result[1]\<close> of a
  failed window, or by the \<^verbatim>\<open>except Exception\<close> handler when the window raises. The
  second lists the windows that were run, each with what it did.
\<close>

fun sequential_windows :: "world \<Rightarrow> string \<Rightarrow> date \<Rightarrow> nat list \<Rightarrow> (bool \<times> string) option \<times> (string \<times> window_run) list" where
  "sequential_windows w tk d0 [] = (None, [])"
| "sequential_windows w tk d0 (i # is) =
     (let url_data = window_url tk d0 i;
          run = download_and_process_gz w url_data 10000
      in case result run of
           Raised e \<Rightarrow> (Some (False, tk), [(url_data, run)])
         | Returned r \<Rightarrow>
             if fst r
             then (case sequential_windows w tk d0 is of (ret, tr) \<Rightarrow> (ret, (url_data, run) # tr))
             else (Some (False, snd r), [(url_data, run)]))"

text \<open>
  The parallel branch: every index of the range is submitted with \<^verbatim>\<open>apply_async\<close>, and
  \<^verbatim>\<open>pool.join()\<close> waits for all of them; no result is read back.
\<close>

definition parallel_windows :: "world \<Rightarrow> string \<Rightarrow> date \<Rightarrow> nat list \<Rightarrow> (string \<times> window_run) list" where
  "parallel_windows w tk d0 idx =
     map (\<lambda>i. (window_url tk d0 i, download_and_process_gz w (window_url tk d0 i) 10000)) idx"

text \<open>
  \<^verbatim>\<open>download_tick_data\<close>. \<open>d1\<close> is an option because \<^verbatim>\<open>downloader\<close> can pass
  \<^verbatim>\<open>None\<close>; then \<^verbatim>\<open>d1 - d0\<close> raises \<^verbatim>\<open>TypeError\<close> inside the \<^verbatim>\<open>try\<close>. After the
  loop the log line reads \<^verbatim>\<open>len(results)\<close>, and \<^verbatim>\<open>results\<close> is assigned only under
  \<^verbatim>\<open>if multiprocess\<close>: in sequential mode this raises \<^verbatim>\<open>UnboundLocalError\<close>. Both are
  absorbed by \<^verbatim>\<open>except Exception\<close>, which returns \<^verbatim>\<open>(False, ticket)\<close>; so is the
  \<^verbatim>\<open>ValueError\<close> of a pool of fewer than one process. The pause after each window
  changes nothing that is computed and is left out.
\<close>

definition download_tick_data :: "world \<Rightarrow> string \<Rightarrow> date \<Rightarrow> date option \<Rightarrow> bool \<Rightarrow> int \<Rightarrow> (bool \<times> string) \<times> (string \<times> window_run) list" where
  "download_tick_data w tk d0 d1 multiprocess num_processes =
     (case d1 of
        None \<Rightarrow> ((False, tk), [])
      | Some d1' \<Rightarrow>
          (let weeks = weeks_between_dates d0 d1'
           in if multiprocess
              then (if num_processes < 1 then ((False, tk), [])
                    else ((True, tk), parallel_windows w tk d0 [0..<nat weeks]))
              else (case sequential_windows w tk d0 [0..<nat weeks] of
                      (Some ret, tr) \<Rightarrow> (ret, tr)
                    | (None, tr) \<Rightarrow> ((False, tk), tr))))"

section \<open>All instruments: downloader\<close>

text \<open>
  The arguments \<^verbatim>\<open>start_date\<close> and \<^verbatim>\<open>end_date\<close> are dynamically typed: \<^verbatim>\<open>None\<close>,
  a \<^verbatim>\<open>datetime.date\<close>, or any other object (the command line passes the strings it
  read).
\<close>

datatype arg = ArgNone | ArgDate date | ArgOther

text \<open>
  The value that \<^verbatim>\<open>FxTick().get_latest(ticket)\<close> hands back is the \<^verbatim>\<open>scalar()\<close> of a
  \<^verbatim>\<open>select(FxTick)\<close>: an \<^verbatim>\<open>FxTick\<close> row object, or \<^verbatim>\<open>None\<close>. The third
  constructor is the type that \<^verbatim>\<open>isinstance(latest_tick, datetime.datetime)\<close> asks for.
\<close>

datatype pyobj = NoneObj | FxTickObj FxTick | DatetimeObj datetime

definition isinstance_datetime :: "pyobj \<Rightarrow> bool" where
  "isinstance_datetime obj = (case obj of DatetimeObj d \<Rightarrow> True | FxTickObj t \<Rightarrow> False | NoneObj \<Rightarrow> False)"

text \<open>The order of the \<^verbatim>\<open>dt\<close> column: microseconds since the start of ordinal day 0.\<close>

definition timestamp_key :: "datetime \<Rightarrow> int" where
  "timestamp_key t =
     (((toordinal (dt_date t) * 24 + hour t) * 60 + minute t) * 60 + second t) * 1000000
     + microsecond t"

text \<open>\<^verbatim>\<open>order_by(FxTick.dt.desc()).limit(1)\<close>: a row with the greatest timestamp.\<close>

fun latest_of :: "FxTick list \<Rightarrow> FxTick option" where
  "latest_of [] = None"
| "latest_of (t # ts) =
     (case latest_of ts of
        None \<Rightarrow> Some t
      | Some u \<Rightarrow> if timestamp_key (dt t) < timestamp_key (dt u) then Some u else Some t)"

definition get_latest :: "db \<Rightarrow> string \<Rightarrow> pyobj" where
  "get_latest database tk =
     (case latest_of (filter (\<lambda>t. ticket t = tk) (fx_tick database)) of
        None \<Rightarrow> NoneObj
      | Some t \<Rightarrow> FxTickObj t)"

text \<open>\<^verbatim>\<open>Instrument().get(tickets)\<close>.\<close>

definition instrument_get :: "db \<Rightarrow> string list option \<Rightarrow> Instrument list" where
  "instrument_get database tickets =
     (case tickets of
        None \<Rightarrow> instruments database
      | Some ts \<Rightarrow> filter (\<lambda>i. inst_ticket i \<in> set (map upper ts)) (instruments database))"

text \<open>
  \<^verbatim>\<open>latest_tick.dt.date() + datetime.timedelta(days=1)\<close>. It is evaluated only when
  \<^verbatim>\<open>latest_tick\<close> is a \<^verbatim>\<open>datetime.datetime\<close>, which has no attribute \<^verbatim>\<open>dt\<close>.
\<close>

definition day_after_latest :: "pyobj \<Rightarrow> exn + date" where
  "day_after_latest obj =
     (case obj of
        FxTickObj t \<Rightarrow> Inr (add_days (dt_date (dt t)) 1)
      | DatetimeObj d \<Rightarrow> Inl AttributeError
      | NoneObj \<Rightarrow> Inl AttributeError)"

text \<open>One call of \<^verbatim>\<open>download_tick_data\<close> as \<^verbatim>\<open>downloader\<close> makes it.\<close>

record call =
  call_ticket :: string
  call_d0 :: date
  call_d1 :: "date option"
  call_multiprocess :: bool
  call_result :: "bool \<times> string"
  call_windows :: "(string \<times> window_run) list"

text \<open>
  The state of the loop over the instruments: the local \<^verbatim>\<open>date_to\<close> (\<open>None\<close> while
  unbound), the store, and the calls made so far.
\<close>

record downloader_state =
  date_to :: "date option"
  store :: db
  calls :: "call list"

definition committed_ticks :: "(string \<times> window_run) list \<Rightarrow> FxTick list" where
  "committed_ticks windows = concat (concat (map (\<lambda>x. batches (snd x)) windows))"

fun for_instruments :: "world \<Rightarrow> date \<Rightarrow> date option \<Rightarrow> bool \<Rightarrow> downloader_state \<Rightarrow> Instrument list \<Rightarrow> exn + downloader_state" where
  "for_instruments w start_date end_date multiprocess st [] = Inr st"
| "for_instruments w start_date end_date multiprocess st (each_instrument # rest) =
     (let latest_tick = get_latest (store st) (inst_ticket each_instrument)
      in case (if isinstance_datetime latest_tick
               then (case day_after_latest latest_tick of
                       Inl e \<Rightarrow> Inl e
                     | Inr d \<Rightarrow> Inr (st\<lparr>date_to := Some d\<rparr>))
               else Inr st) of
           Inl e \<Rightarrow> Inl e
         | Inr st1 \<Rightarrow>
             (let r = download_tick_data w (inst_ticket each_instrument) start_date end_date
                        multiprocess 4;
                  c = \<lparr>call_ticket = inst_ticket each_instrument, call_d0 = start_date,
                       call_d1 = end_date, call_multiprocess = multiprocess,
                       call_result = fst r, call_windows = snd r\<rparr>;
                  database = store st1
              in for_instruments w start_date end_date multiprocess
                   (st1\<lparr>store := database\<lparr>fx_tick := fx_tick database @ committed_ticks (snd r)\<rparr>,
                        calls := calls st1 @ [c]\<rparr>)
                   rest))"

definition downloader :: "world \<Rightarrow> db \<Rightarrow> string list option \<Rightarrow> arg \<Rightarrow> arg \<Rightarrow> bool \<Rightarrow> exn + downloader_state" where
  "downloader w database tickets start_date end_date multiprocess =
     (case (case start_date of
              ArgNone \<Rightarrow> Inr \<lparr>year = 2019, month = 1, day = 1\<rparr>
            | ArgDate d \<Rightarrow> Inr d
            | ArgOther \<Rightarrow> Inl TypeError) of
        Inl e \<Rightarrow> Inl e
      | Inr start \<Rightarrow>
          (case end_date of
             ArgOther \<Rightarrow> Inl TypeError
           | ArgNone \<Rightarrow>
               for_instruments w start None multiprocess
                 \<lparr>date_to = Some (add_days ((today w)\<lparr>day := 1\<rparr>) (- 1)),
                  store = database, calls = []\<rparr>
                 (instrument_get database tickets)
           | ArgDate d \<Rightarrow>
               for_instruments w start (Some d) multiprocess
                 \<lparr>date_to = None, store = database, calls = []\<rparr>
                 (instrument_get database tickets)))"

section \<open>Notions used to state the properties\<close>

text \<open>The tick records a loop state has produced so far, in order.\<close>

definition emitted :: "loop_state \<Rightarrow> FxTick list" where
  "emitted s = concat (commits s) @ rows s"



text \<open>The timestamp of a row on its own: the last accepted format that parses its first field.\<close>

definition own_timestamp :: "world \<Rightarrow> string list \<Rightarrow> datetime option" where
  "own_timestamp w row = (if row = [] then None else try_fmts w (hd row) None)"


text \<open>A window run that the sequential loop continues after: it returned a true flag.\<close>

definition window_ok :: "window_run \<Rightarrow> bool" where
  "window_ok run = (case result run of Returned r \<Rightarrow> fst r | Raised e \<Rightarrow> False)"

text \<open>
  The records of one row, given the timestamp the row ends up with: none when bid or ask
  is missing, else one record with the row's second and third fields as they are.
\<close>

definition row_records :: "string \<Rightarrow> datetime \<Rightarrow> string list \<Rightarrow> FxTick list" where
  "row_records tk t row =
     (if length row < 3 then [] else [\<lparr>dt = t, bid = row ! 1, ask = row ! 2, ticket = tk\<rparr>])"

text \<open>
  The records that the rows of a window yield, apart from their batching: the row loop
  reduced to the records it appends. The third argument is the local \<^verbatim>\<open>dt\<close> before
  the first row. The value is \<open>None\<close> when a row finds \<^verbatim>\<open>dt\<close> unbound.
\<close>

fun parsed_records :: "world \<Rightarrow> string \<Rightarrow> datetime option \<Rightarrow> string list list \<Rightarrow> FxTick list option" where
  "parsed_records w tk d [] = Some []"
| "parsed_records w tk d (row # rest) =
     (if row = [] then parsed_records w tk d rest
      else case try_fmts w (hd row) d of
             None \<Rightarrow> None
           | Some t \<Rightarrow>
               (case parsed_records w tk (Some t) rest of
                  None \<Rightarrow> None
                | Some ts \<Rightarrow> Some (row_records tk t row @ ts)))"





text \<open>The run of the window of index \<open>i\<close>, as \<^verbatim>\<open>download_tick_data\<close> starts it.\<close>

definition run_window :: "world \<Rightarrow> string \<Rightarrow> date \<Rightarrow> nat \<Rightarrow> window_run" where
  "run_window w tk d0 i = download_and_process_gz w (window_url tk d0 i) 10000"

text \<open>
  The label that the sequential loop returns with a failed window: the window's own label
  when it returned one, the ticket when it raised.
\<close>

definition failure_label :: "string \<Rightarrow> window_run \<Rightarrow> string" where
  "failure_label tk run = (case result run of Returned r \<Rightarrow> snd r | Raised e \<Rightarrow> tk)"

section \<open>Example data\<close>

text \<open>
  A small archive for the concrete instances below. The two data files are those of ISO
  weeks 18 and 20 of 2023 for EURUSD; every other URL fails to download. The reader is
  \<^verbatim>\<open>csv.reader\<close> on lines without quotes, given without their line ends: a blank line is
  the empty row, any other line is split at its commas. \<open>example_strptime\<close> is
  \<^verbatim>\<open>strptime\<close> on the timestamps that occur in the files.
\<close>

definition example_time :: "int \<Rightarrow> int \<Rightarrow> datetime" where
  "example_time d s =
     \<lparr>dt_date = \<lparr>year = 2023, month = 5, day = d\<rparr>, hour = 0, minute = 0, second = s,
      microsecond = 0\<rparr>"

definition example_strptime :: "string \<Rightarrow> string \<Rightarrow> datetime option" where
  "example_strptime s fmt =
     (if fmt = ''%m/%d/%Y %H:%M:%S.%f''
      then (if s = ''05/01/2023 00:00:00.000'' then Some (example_time 1 0)
            else if s = ''05/01/2023 00:00:01.000'' then Some (example_time 1 1)
            else if s = ''05/01/2023 00:00:02.000'' then Some (example_time 1 2)
            else if s = ''05/01/2023 00:00:03.000'' then Some (example_time 1 3)
            else if s = ''05/01/2023 00:00:04.000'' then Some (example_time 1 4)
            else None)
      else if fmt = ''%m-%d-%Y %H:%M:%S.%f''
      then (if s = ''05-02-2023 00:00:00.000'' then Some (example_time 2 0) else None)
      else None)"

definition example_csv_reader :: "string list \<Rightarrow> string list list \<times> reader_end" where
  "example_csv_reader file =
     (map (\<lambda>line. if line = [] then [] else str_split CHR '','' line) file, EndOfData)"

definition week18_file :: "string list" where
  "week18_file =
     [''DateTime,Bid,Ask'',
      ''05/01/2023 00:00:00.000,1.09700,1.09720'',
      ''05/01/2023 00:00:01.000'',
      ''2023.05.01 00:00:02,1.09701,1.09721'',
      ''05-02-2023 00:00:00.000,abc,1.09722'']"

definition week20_file :: "string list" where
  "week20_file =
     [''DateTime,Bid,Ask'',
      ''15/05/2023 00:00:00.000,1.08700,1.08720'',
      ''05/01/2023 00:00:00.000,1.08701,1.08721'']"

definition week21_file :: "string list" where
  "week21_file =
     [''DateTime,Bid,Ask'',
      ''05/01/2023 00:00:00.000,1.08000,1.08020'',
      ''05/01/2023 00:00:01.000,1.08001'',
      [],
      ''05-02-2023 00:00:00.000,abc,1.08022'']"


definition example_record :: "int \<Rightarrow> int \<Rightarrow> string \<Rightarrow> string \<Rightarrow> FxTick" where
  "example_record d s b a = \<lparr>dt = example_time d s, bid = b, ask = a, ticket = ''EURUSD''\<rparr>"

definition example_get :: "string \<Rightarrow> response" where
  "example_get url =
     (if url = ''https://tickdata.fxcorporate.com/EURUSD/2023/18.csv.gz''
      then Response (Text week18_file)
      else if url = ''https://tickdata.fxcorporate.com/EURUSD/2023/20.csv.gz''
      then Response (Text week20_file)
      else if url = ''https://tickdata.fxcorporate.com/EURUSD/2023/21.csv.gz''
      then Response (Text week21_file)
      else RequestException)"

definition example_world :: world where
  "example_world =
     \<lparr>requests_get = example_get, csv_reader = example_csv_reader,
      strptime = example_strptime, today = \<lparr>year = 2023, month = 6, day = 15\<rparr>\<rparr>"

definition example_db :: db where
  "example_db =
     \<lparr>instruments = [\<lparr>inst_ticket = ''EURUSD'', has_ticks = True, has_candles = False\<rparr>],
      fx_tick = [\<lparr>dt = example_time 10 0, bid = ''1.09000'', ask = ''1.09020'',
                  ticket = ''EURUSD''\<rparr>]\<rparr>"

section \<open>The window count is the ceiling of the days over seven\<close>

lemma ceiling_sevenths:
  "\<lceil>real_of_int x / 7\<rceil> = (if x mod 7 = 0 then x div 7 else x div 7 + 1)"
proof -
  have "\<lceil>real_of_int x / real_of_int 7\<rceil> = - (- x div 7)"
    by (rule ceiling_divide_eq_div)
  moreover have "- (- x div 7) = (if x mod 7 = 0 then x div 7 else x div 7 + 1)"
    by presburger
  ultimately show ?thesis by simp
qed

lemma toordinal_2023_05_01: "toordinal \<lparr>year = 2023, month = 5, day = 1\<rparr> = 738641"
  by (simp add: toordinal_def days_before_year_def days_before_month_def
      days_before_month_table_def is_leap_def)

lemma toordinal_2023_05_14: "toordinal \<lparr>year = 2023, month = 5, day = 14\<rparr> = 738654"
  by (simp add: toordinal_def days_before_year_def days_before_month_def
      days_before_month_table_def is_leap_def)

lemma toordinal_2023_06_01: "toordinal \<lparr>year = 2023, month = 6, day = 1\<rparr> = 738672"
  by (simp add: toordinal_def days_before_year_def days_before_month_def
      days_before_month_table_def is_leap_def)

text \<open>
  Claim C6. For all dates \<open>d0\<close> and \<open>d1\<close>, \<^verbatim>\<open>weeks_between_dates(d0, d1)\<close> is the
  ceiling of the number of days from \<open>d0\<close> to \<open>d1\<close> divided by seven. It is 0 when the
  two dates are equal (as for 2023-05-01 twice), 2 from 2023-05-01 to 2023-05-14, and -4
  from 2023-06-01 back to 2023-05-01.
\<close>

theorem weeks_between_dates_ceiling:
  "weeks_between_dates d0 d1 = \<lceil>real_of_int (toordinal d1 - toordinal d0) / 7\<rceil>
   \<and> weeks_between_dates d0 d0 = 0
   \<and> weeks_between_dates \<lparr>year = 2023, month = 5, day = 1\<rparr> \<lparr>year = 2023, month = 5, day = 1\<rparr> = 0
   \<and> weeks_between_dates \<lparr>year = 2023, month = 5, day = 1\<rparr> \<lparr>year = 2023, month = 5, day = 14\<rparr> = 2
   \<and> weeks_between_dates \<lparr>year = 2023, month = 6, day = 1\<rparr> \<lparr>year = 2023, month = 5, day = 1\<rparr> = - 4"
proof -
  have general: "weeks_between_dates d0 d1 = \<lceil>real_of_int (toordinal d1 - toordinal d0) / 7\<rceil>"
    unfolding weeks_between_dates_def Let_def ceiling_sevenths by simp
  have same: "\<And>d. weeks_between_dates d d = 0"
    by (simp add: weeks_between_dates_def)
  have two: "weeks_between_dates \<lparr>year = 2023, month = 5, day = 1\<rparr> \<lparr>year = 2023, month = 5, day = 14\<rparr> = 2"
    by (simp add: weeks_between_dates_def toordinal_2023_05_01 toordinal_2023_05_14)
  have backwards: "weeks_between_dates \<lparr>year = 2023, month = 6, day = 1\<rparr> \<lparr>year = 2023, month = 5, day = 1\<rparr> = - 4"
    by (simp add: weeks_between_dates_def toordinal_2023_05_01 toordinal_2023_06_01)
  from general same two backwards show ?thesis by blast
qed

section \<open>The sequential mode never reports success\<close>

lemma sequential_windows_returns_failure:
  "sequential_windows w tk d0 idx = (Some r, tr) \<Longrightarrow> \<not> fst r"
proof (induction idx arbitrary: r tr)
  case Nil
  then show ?case by simp
next
  case (Cons i idx)
  then show ?case
    by (auto simp: Let_def split: outcome.splits if_splits prod.splits)
qed

text \<open>
  Claim C4. Every call of \<^verbatim>\<open>download_tick_data\<close> with \<^verbatim>\<open>multiprocess=False\<close> returns
  a pair whose success flag is \<^verbatim>\<open>False\<close>, whatever the windows do and however many there
  are: a return from inside the loop is a failure, and after the loop the log line reads
  the list \<^verbatim>\<open>results\<close>, which only the parallel mode creates, so that the handler for
  \<^verbatim>\<open>Exception\<close> returns \<^verbatim>\<open>(False, ticket)\<close>.
\<close>

theorem sequential_never_succeeds:
  "fst (fst (download_tick_data w tk d0 d1 False num_processes)) = False"
proof (cases d1)
  case None
  then show ?thesis by (simp add: download_tick_data_def)
next
  case (Some d1')
  obtain ret tr where st: "sequential_windows w tk d0 [0..<nat (weeks_between_dates d0 d1')] = (ret, tr)"
    by (cases "sequential_windows w tk d0 [0..<nat (weeks_between_dates d0 d1')]")
  show ?thesis
  proof (cases ret)
    case None
    with Some st show ?thesis by (simp add: download_tick_data_def)
  next
    case (Some r)
    with st have "\<not> fst r" using sequential_windows_returns_failure by blast
    with Some \<open>d1 = Some d1'\<close> st show ?thesis by (simp add: download_tick_data_def)
  qed
qed

section \<open>An empty or reversed range dispatches nothing\<close>

lemma weeks_nonpositive:
  "toordinal d1 \<le> toordinal d0 \<Longrightarrow> weeks_between_dates d0 d1 \<le> 0"
  unfolding weeks_between_dates_def Let_def by presburger

text \<open>
  Claim C7. When the start date of \<^verbatim>\<open>download_tick_data\<close> is on or after its end date,
  the window count is zero or negative and, in either mode, no window is run (so nothing
  is fetched): \<^verbatim>\<open>range\<close> of a number that is not positive is empty.
\<close>

theorem no_windows_when_start_not_before_end:
  assumes "toordinal d1 \<le> toordinal d0"
  shows "weeks_between_dates d0 d1 \<le> 0
         \<and> snd (download_tick_data w tk d0 (Some d1) multiprocess num_processes) = []"
proof -
  from assms have "nat (weeks_between_dates d0 d1) = 0"
    using weeks_nonpositive by simp
  then show ?thesis
    using weeks_nonpositive [OF assms]
    by (simp add: download_tick_data_def parallel_windows_def Let_def)
qed

theorem no_windows_when_start_not_before_end_witness:
  "toordinal \<lparr>year = 2023, month = 5, day = 1\<rparr> \<le> toordinal \<lparr>year = 2023, month = 6, day = 1\<rparr>
   \<and> weeks_between_dates \<lparr>year = 2023, month = 6, day = 1\<rparr> \<lparr>year = 2023, month = 5, day = 1\<rparr> \<le> 0
   \<and> snd (download_tick_data example_world ''EURUSD'' \<lparr>year = 2023, month = 6, day = 1\<rparr>
            (Some \<lparr>year = 2023, month = 5, day = 1\<rparr>) False 4) = []
   \<and> snd (download_tick_data example_world ''EURUSD'' \<lparr>year = 2023, month = 6, day = 1\<rparr>
            (Some \<lparr>year = 2023, month = 5, day = 1\<rparr>) True 4) = []"
proof -
  have h: "toordinal \<lparr>year = 2023, month = 5, day = 1\<rparr> \<le> toordinal \<lparr>year = 2023, month = 6, day = 1\<rparr>"
    by (simp add: toordinal_2023_05_01 toordinal_2023_06_01)
  show ?thesis
    using h no_windows_when_start_not_before_end [OF h, of example_world "''EURUSD''" False 4]
      no_windows_when_start_not_before_end [OF h, of example_world "''EURUSD''" True 4]
    by simp
qed

section \<open>The parts of a window's URL\<close>



lemma str_split_no_separator: "c \<notin> set a \<Longrightarrow> str_split c a = [a]"
  by (induction a) auto

lemma str_split_at_separator: "c \<notin> set a \<Longrightarrow> str_split c (a @ c # b) = a # str_split c b"
  by (induction a) auto







lemma url_parts:
  assumes "CHR ''/'' \<notin> set tk" "CHR ''/'' \<notin> set yr" "CHR ''/'' \<notin> set wk"
  shows "str_split CHR ''/'' (base_url @ ''/'' @ tk @ ''/'' @ yr @ ''/'' @ wk @ url_suffix)
         = [''https:'', [], ''tickdata.fxcorporate.com'', tk, yr, wk @ url_suffix]"
proof -
  have last_part: "str_split CHR ''/'' (wk @ url_suffix) = [wk @ url_suffix]"
    using assms(3) by (intro str_split_no_separator) (simp add: url_suffix_def)
  have "str_split CHR ''/'' (tk @ CHR ''/'' # yr @ CHR ''/'' # wk @ url_suffix)
        = [tk, yr, wk @ url_suffix]"
    using assms last_part by (simp add: str_split_at_separator)
  then show ?thesis by (simp add: base_url_def)
qed




section \<open>A failed download commits nothing\<close>






section \<open>Sequential runs stop at the first failure, parallel runs dispatch everything\<close>

lemma sequential_windows_stops:
  assumes "list_all (\<lambda>i. window_ok (run_window w tk d0 i)) pre"
    and "\<not> window_ok (run_window w tk d0 k)"
  shows "sequential_windows w tk d0 (pre @ k # post)
         = (Some (False, failure_label tk (run_window w tk d0 k)),
            map (\<lambda>i. (window_url tk d0 i, run_window w tk d0 i)) (pre @ [k]))"
  using assms
proof (induction pre)
  case Nil
  then show ?case
    by (auto simp: run_window_def window_ok_def failure_label_def Let_def split: outcome.splits)
next
  case (Cons i pre)
  then show ?case
    by (auto simp: run_window_def window_ok_def Let_def split: outcome.splits)
qed

lemma upt_split_at: "k < n \<Longrightarrow> [0..<n] = [0..<k] @ k # [Suc k..<n]"
  by (metis add_0 less_imp_add_positive upt_add_eq_append upt_conv_Cons zero_le)

lemma sequential_download_stops:
  assumes "k < nat (weeks_between_dates d0 d1)"
    and "\<forall>i<k. window_ok (run_window w tk d0 i)"
    and "\<not> window_ok (run_window w tk d0 k)"
  shows "download_tick_data w tk d0 (Some d1) False num_processes
         = ((False, failure_label tk (run_window w tk d0 k)),
            map (\<lambda>i. (window_url tk d0 i, run_window w tk d0 i)) [0..<Suc k])"
proof -
  have "list_all (\<lambda>i. window_ok (run_window w tk d0 i)) [0..<k]"
    using assms(2) by (simp add: list_all_iff)
  then have "sequential_windows w tk d0 ([0..<k] @ k # [Suc k..<nat (weeks_between_dates d0 d1)])
         = (Some (False, failure_label tk (run_window w tk d0 k)),
            map (\<lambda>i. (window_url tk d0 i, run_window w tk d0 i)) ([0..<k] @ [k]))"
    using assms(3) by (rule sequential_windows_stops)
  then show ?thesis
    using upt_split_at [OF assms(1)] by (simp add: download_tick_data_def Let_def)
qed

text \<open>
  Claim C5. In sequential mode, when the windows before index \<open>k\<close> succeed and window
  \<open>k\<close> reports failure, \<^verbatim>\<open>download_tick_data\<close> returns at once with \<^verbatim>\<open>False\<close> and that
  window's label, and the windows it has run are exactly those of index 0 to \<open>k\<close>: no
  later window is dispatched. The same holds, with the ticket as label, when window \<open>k\<close>
  raises. In parallel mode (with a pool of at least one process) every window of the range
  is submitted and runs to its end whatever the others do, and the call returns after
  the pool is joined.
\<close>

theorem sequential_fails_fast_parallel_runs_all:
  "(k < nat (weeks_between_dates d0 d1)
      \<and> (\<forall>i<k. window_ok (run_window w tk d0 i))
      \<and> result (run_window w tk d0 k) = Returned (False, label)
    \<longrightarrow> download_tick_data w tk d0 (Some d1) False num_processes
         = ((False, label), map (\<lambda>i. (window_url tk d0 i, run_window w tk d0 i)) [0..<Suc k]))
   \<and> (k < nat (weeks_between_dates d0 d1)
      \<and> (\<forall>i<k. window_ok (run_window w tk d0 i))
      \<and> result (run_window w tk d0 k) = Raised e
    \<longrightarrow> download_tick_data w tk d0 (Some d1) False num_processes
         = ((False, tk), map (\<lambda>i. (window_url tk d0 i, run_window w tk d0 i)) [0..<Suc k]))
   \<and> (1 \<le> num_processes
    \<longrightarrow> download_tick_data w tk d0 (Some d1) True num_processes
         = ((True, tk),
            map (\<lambda>i. (window_url tk d0 i, run_window w tk d0 i))
              [0..<nat (weeks_between_dates d0 d1)]))"
proof (intro conjI impI)
  assume a: "k < nat (weeks_between_dates d0 d1)
      \<and> (\<forall>i<k. window_ok (run_window w tk d0 i))
      \<and> result (run_window w tk d0 k) = Returned (False, label)"
  then have "\<not> window_ok (run_window w tk d0 k)"
    and "failure_label tk (run_window w tk d0 k) = label"
    by (simp_all add: window_ok_def failure_label_def)
  with a show "download_tick_data w tk d0 (Some d1) False num_processes
         = ((False, label), map (\<lambda>i. (window_url tk d0 i, run_window w tk d0 i)) [0..<Suc k])"
    using sequential_download_stops [of k d0 d1 w tk num_processes] by simp
next
  assume a: "k < nat (weeks_between_dates d0 d1)
      \<and> (\<forall>i<k. window_ok (run_window w tk d0 i))
      \<and> result (run_window w tk d0 k) = Raised e"
  then have "\<not> window_ok (run_window w tk d0 k)"
    and "failure_label tk (run_window w tk d0 k) = tk"
    by (simp_all add: window_ok_def failure_label_def)
  with a show "download_tick_data w tk d0 (Some d1) False num_processes
         = ((False, tk), map (\<lambda>i. (window_url tk d0 i, run_window w tk d0 i)) [0..<Suc k])"
    using sequential_download_stops [of k d0 d1 w tk num_processes] by simp
next
  assume "1 \<le> num_processes"
  then show "download_tick_data w tk d0 (Some d1) True num_processes
         = ((True, tk),
            map (\<lambda>i. (window_url tk d0 i, run_window w tk d0 i))
              [0..<nat (weeks_between_dates d0 d1)])"
    by (simp add: download_tick_data_def parallel_windows_def run_window_def Let_def)
qed

lemma example_three_weeks:
  "nat (weeks_between_dates \<lparr>year = 2023, month = 5, day = 1\<rparr> \<lparr>year = 2023, month = 5, day = 22\<rparr>) = 3"
  by code_simp

lemma example_week18_ok:
  "window_ok (run_window example_world ''EURUSD'' \<lparr>year = 2023, month = 5, day = 1\<rparr> 0)"
  by code_simp

lemma example_week19_result:
  "result (run_window example_world ''EURUSD'' \<lparr>year = 2023, month = 5, day = 1\<rparr> 1)
   = Returned (False, ''EURUSD-2023-19'')"
  by code_simp

lemma example_week20_result:
  "result (run_window example_world ''EURUSD'' \<lparr>year = 2023, month = 5, day = 1\<rparr> 2)
   = Raised UnboundLocalError"
  by code_simp

lemma example_urls:
  "map (window_url ''EURUSD'' \<lparr>year = 2023, month = 5, day = 1\<rparr>) [0, 1, 2]
   = [''https://tickdata.fxcorporate.com/EURUSD/2023/18.csv.gz'',
      ''https://tickdata.fxcorporate.com/EURUSD/2023/19.csv.gz'',
      ''https://tickdata.fxcorporate.com/EURUSD/2023/20.csv.gz'']"
  by code_simp

lemma upt_two: "[0..<Suc 1] = [0, 1]"
  by code_simp

lemma upt_three: "[0..<3] = [0, 1, 2]"
  by code_simp

theorem sequential_fails_fast_parallel_runs_all_witness:
  "(1::nat) < nat (weeks_between_dates \<lparr>year = 2023, month = 5, day = 1\<rparr> \<lparr>year = 2023, month = 5, day = 22\<rparr>)
   \<and> window_ok (run_window example_world ''EURUSD'' \<lparr>year = 2023, month = 5, day = 1\<rparr> 0)
   \<and> result (run_window example_world ''EURUSD'' \<lparr>year = 2023, month = 5, day = 1\<rparr> 1)
     = Returned (False, ''EURUSD-2023-19'')
   \<and> result (run_window example_world ''EURUSD'' \<lparr>year = 2023, month = 5, day = 1\<rparr> 2)
     = Raised UnboundLocalError
   \<and> fst (download_tick_data example_world ''EURUSD'' \<lparr>year = 2023, month = 5, day = 1\<rparr>
       (Some \<lparr>year = 2023, month = 5, day = 22\<rparr>) False 4) = (False, ''EURUSD-2023-19'')
   \<and> map fst (snd (download_tick_data example_world ''EURUSD'' \<lparr>year = 2023, month = 5, day = 1\<rparr>
       (Some \<lparr>year = 2023, month = 5, day = 22\<rparr>) False 4))
     = [''https://tickdata.fxcorporate.com/EURUSD/2023/18.csv.gz'',
        ''https://tickdata.fxcorporate.com/EURUSD/2023/19.csv.gz'']
   \<and> (1::int) \<le> 4
   \<and> fst (download_tick_data example_world ''EURUSD'' \<lparr>year = 2023, month = 5, day = 1\<rparr>
       (Some \<lparr>year = 2023, month = 5, day = 22\<rparr>) True 4) = (True, ''EURUSD'')
   \<and> map fst (snd (download_tick_data example_world ''EURUSD'' \<lparr>year = 2023, month = 5, day = 1\<rparr>
       (Some \<lparr>year = 2023, month = 5, day = 22\<rparr>) True 4))
     = [''https://tickdata.fxcorporate.com/EURUSD/2023/18.csv.gz'',
        ''https://tickdata.fxcorporate.com/EURUSD/2023/19.csv.gz'',
        ''https://tickdata.fxcorporate.com/EURUSD/2023/20.csv.gz'']"
proof -
  let ?d0 = "\<lparr>year = 2023, month = 5, day = 1\<rparr>"
  let ?d1 = "\<lparr>year = 2023, month = 5, day = 22\<rparr>"
  have k: "(1::nat) < nat (weeks_between_dates ?d0 ?d1)"
    by (simp add: example_three_weeks)
  have before: "\<forall>i<1. window_ok (run_window example_world ''EURUSD'' ?d0 i)"
    using example_week18_ok by simp
  have p: "(1::int) \<le> 4" by simp
  note t = sequential_fails_fast_parallel_runs_all
    [of 1 ?d0 ?d1 example_world "''EURUSD''" "''EURUSD-2023-19''" 4 UnboundLocalError]
  from t k before example_week19_result
  have s: "download_tick_data example_world ''EURUSD'' ?d0 (Some ?d1) False 4
         = ((False, ''EURUSD-2023-19''),
            map (\<lambda>i. (window_url ''EURUSD'' ?d0 i, run_window example_world ''EURUSD'' ?d0 i))
              [0..<Suc 1])"
    by blast
  from t p
  have m: "download_tick_data example_world ''EURUSD'' ?d0 (Some ?d1) True 4
         = ((True, ''EURUSD''),
            map (\<lambda>i. (window_url ''EURUSD'' ?d0 i, run_window example_world ''EURUSD'' ?d0 i))
              [0..<nat (weeks_between_dates ?d0 ?d1)])"
    by blast
  have su: "map fst (snd (download_tick_data example_world ''EURUSD'' ?d0 (Some ?d1) False 4))
     = [''https://tickdata.fxcorporate.com/EURUSD/2023/18.csv.gz'',
        ''https://tickdata.fxcorporate.com/EURUSD/2023/19.csv.gz'']"
    using example_urls by (simp add: s upt_two comp_def)
  have mu: "map fst (snd (download_tick_data example_world ''EURUSD'' ?d0 (Some ?d1) True 4))
     = [''https://tickdata.fxcorporate.com/EURUSD/2023/18.csv.gz'',
        ''https://tickdata.fxcorporate.com/EURUSD/2023/19.csv.gz'',
        ''https://tickdata.fxcorporate.com/EURUSD/2023/20.csv.gz'']"
    using example_urls by (simp add: m example_three_weeks upt_three comp_def)
  show ?thesis
    using k example_week18_ok example_week19_result example_week20_result su mu
    by (simp add: s m)
qed


section \<open>The row loop\<close>

subsection \<open>One iteration\<close>

lemma try_fmts_cases:
  "try_fmts w x d = (case try_fmts w x None of None \<Rightarrow> d | Some t \<Rightarrow> Some t)"
  by (simp add: try_fmts_def datetime_fmts_def split: option.splits)


lemma emitted_commit [simp]:
  "emitted (s\<lparr>commits := commits s @ [rows s], rows := []\<rparr>) = emitted s"
  by (simp add: emitted_def)


lemma row_step_parsed:
  assumes "b \<noteq> 0" "row \<noteq> []" "try_fmts w (hd row) (dt_local s) = Some t"
  shows "\<exists>s'. row_step w tk b s row = Inr s'
              \<and> emitted s' = emitted s @ row_records tk t row
              \<and> warnings s' = warnings s @ (if length row < 3 then [row] else [])
              \<and> dt_local s' = Some t"
  using assms by (simp add: row_step_def parse_row_def row_records_def emitted_def Let_def)

lemma row_step_unbound:
  assumes "row \<noteq> []" "try_fmts w (hd row) (dt_local s) = None"
  shows "row_step w tk b s row = Inl UnboundLocalError"
  using assms by (simp add: row_step_def parse_row_def Let_def)

lemma row_step_dt_local:
  assumes "row_step w tk b s row = Inr s'"
  shows "dt_local s' = (case own_timestamp w row of None \<Rightarrow> dt_local s | Some t \<Rightarrow> Some t)"
proof (cases "row = []")
  case True
  with assms show ?thesis
    by (auto simp: row_step_def own_timestamp_def split: if_splits)
next
  case False
  with assms show ?thesis
    using try_fmts_cases [of w "hd row" "dt_local s"]
    by (auto simp: row_step_def parse_row_def own_timestamp_def Let_def
        split: if_splits option.splits)
qed

subsection \<open>The loop\<close>




lemma for_rows_unbound:
  assumes "parsed_records w tk (dt_local s) data = None"
  shows "fst (for_rows w tk b s data) \<noteq> None"
  using assms
proof (induction data arbitrary: s)
  case Nil
  then show ?case by simp
next
  case (Cons row rest)
  show ?case
  proof (cases "row_step w tk b s row")
    case (Inl e)
    then show ?thesis by simp
  next
    case (Inr s1)
    note d = row_step_dt_local [OF Inr]
    show ?thesis
    proof (cases "row = []")
      case True
      with d have "dt_local s1 = dt_local s" by (simp add: own_timestamp_def)
      with Cons.prems True have "parsed_records w tk (dt_local s1) rest = None" by simp
      from Cons.IH [OF this] Inr show ?thesis by simp
    next
      case False
      show ?thesis
      proof (cases "try_fmts w (hd row) (dt_local s)")
        case None
        from row_step_unbound [OF False None] Inr show ?thesis by simp
      next
        case (Some t)
        from row_step_parsed [of b row w s t tk] False Some Inr
        have "b = 0 \<or> dt_local s1 = Some t" by auto
        moreover have "b \<noteq> 0" using Inr by (auto simp: row_step_def split: sum.splits if_splits)
        ultimately have "dt_local s1 = Some t" by simp
        with Cons.prems False Some have "parsed_records w tk (dt_local s1) rest = None"
          by (auto split: option.splits)
        from Cons.IH [OF this] Inr show ?thesis by simp
      qed
    qed
  qed
qed


section \<open>Batches\<close>






subsection \<open>Chunks\<close>

















section \<open>Rows with missing fields\<close>















section \<open>A timestamp that matches neither format\<close>










section \<open>The dates that downloader passes on\<close>

text \<open>
  \<^verbatim>\<open>get_latest\<close> returns a row object or \<^verbatim>\<open>None\<close>, never a
  \<^verbatim>\<open>datetime.datetime\<close>, so the test that guards the resume date is always false; and
  the call of \<^verbatim>\<open>download_tick_data\<close> passes \<^verbatim>\<open>start_date\<close> and \<^verbatim>\<open>end_date\<close>, not
  \<^verbatim>\<open>date_to\<close>. Whatever the store holds, every instrument is downloaded from the same
  start date to the end date as it was given.
\<close>

lemma get_latest_not_datetime: "\<not> isinstance_datetime (get_latest database tk)"
  by (simp add: get_latest_def isinstance_datetime_def split: option.splits)

lemma for_instruments_calls:
  "\<exists>st'. for_instruments w start_date end_date multiprocess st insts = Inr st'
         \<and> date_to st' = date_to st
         \<and> map call_d0 (calls st') = map call_d0 (calls st) @ map (\<lambda>i. start_date) insts
         \<and> map call_d1 (calls st') = map call_d1 (calls st) @ map (\<lambda>i. end_date) insts"
proof (induction insts arbitrary: st)
  case Nil
  then show ?case by simp
next
  case (Cons i insts)
  define r where "r = download_tick_data w (inst_ticket i) start_date end_date multiprocess 4"
  define st1 where "st1 = st\<lparr>store := (store st)\<lparr>fx_tick := fx_tick (store st) @ committed_ticks (snd r)\<rparr>,
      calls := calls st @ [\<lparr>call_ticket = inst_ticket i, call_d0 = start_date,
        call_d1 = end_date, call_multiprocess = multiprocess,
        call_result = fst r, call_windows = snd r\<rparr>]\<rparr>"
  have step: "for_instruments w start_date end_date multiprocess st (i # insts)
              = for_instruments w start_date end_date multiprocess st1 insts"
    using get_latest_not_datetime by (simp add: Let_def st1_def r_def)
  from Cons.IH [of st1] obtain st' where
    "for_instruments w start_date end_date multiprocess st1 insts = Inr st'"
    and "date_to st' = date_to st1"
    and "map call_d0 (calls st') = map call_d0 (calls st1) @ map (\<lambda>i. start_date) insts"
    and "map call_d1 (calls st') = map call_d1 (calls st1) @ map (\<lambda>i. end_date) insts"
    by blast
  then show ?case
    unfolding step by (simp add: st1_def)
qed

text \<open>
  Claim C1 says that an instrument with a stored latest tick is downloaded from the day
  after that tick's date. On the example store the latest EURUSD tick is of 2023-05-10,
  the day after it is 2023-05-11, and a run with no start date and the end date
  2023-05-22 downloads EURUSD from 2019-01-01: the window it dispatches is week 1 of 2019.
\<close>

theorem latest_tick_is_not_used:
  "get_latest example_db ''EURUSD'' = FxTickObj (example_record 10 0 ''1.09000'' ''1.09020'')
   \<and> day_after_latest (get_latest example_db ''EURUSD'') = Inr \<lparr>year = 2023, month = 5, day = 11\<rparr>
   \<and> downloader example_world example_db (Some [''eurusd'']) ArgNone
       (ArgDate \<lparr>year = 2023, month = 5, day = 22\<rparr>) False
     = Inr \<lparr>date_to = None, store = example_db,
            calls = [\<lparr>call_ticket = ''EURUSD'', call_d0 = \<lparr>year = 2019, month = 1, day = 1\<rparr>,
                      call_d1 = Some \<lparr>year = 2023, month = 5, day = 22\<rparr>,
                      call_multiprocess = False,
                      call_result = (False, ''EURUSD-2019-1''),
                      call_windows =
                        [(''https://tickdata.fxcorporate.com/EURUSD/2019/1.csv.gz'',
                          \<lparr>result = Returned (False, ''EURUSD-2019-1''), batches = [],
                           skipped = []\<rparr>)]\<rparr>]\<rparr>"
  by code_simp

text \<open>
  Claim C3 says that a run without an end date uses the last day of the previous month.
  With today at 2023-06-15 that day, 2023-05-31, is computed into \<^verbatim>\<open>date_to\<close>, but
  \<^verbatim>\<open>download_tick_data\<close> is called with \<^verbatim>\<open>d1 = None\<close>: it dispatches no window and
  returns \<^verbatim>\<open>(False, ticket)\<close>, in either mode.
\<close>

theorem default_end_date_is_not_used:
  "downloader example_world example_db None ArgNone ArgNone False
   = Inr \<lparr>date_to = Some \<lparr>year = 2023, month = 5, day = 31\<rparr>, store = example_db,
          calls = [\<lparr>call_ticket = ''EURUSD'', call_d0 = \<lparr>year = 2019, month = 1, day = 1\<rparr>,
                    call_d1 = None, call_multiprocess = False,
                    call_result = (False, ''EURUSD''), call_windows = []\<rparr>]\<rparr>
   \<and> downloader example_world example_db None ArgNone ArgNone True
   = Inr \<lparr>date_to = Some \<lparr>year = 2023, month = 5, day = 31\<rparr>, store = example_db,
          calls = [\<lparr>call_ticket = ''EURUSD'', call_d0 = \<lparr>year = 2019, month = 1, day = 1\<rparr>,
                    call_d1 = None, call_multiprocess = True,
                    call_result = (False, ''EURUSD''), call_windows = []\<rparr>]\<rparr>"
  by code_simp


end
